theory Spec2Isabelle
  imports Main "HOL-Library.AList"
begin

section \<open>Dates and the date provider\<close>

text \<open>
  A JavaScript \<open>Date\<close> is a number of milliseconds since the epoch: an \<open>instant\<close>.
  A civil date, which the source writes as a \<open>'yyyy-MM-dd'\<close> string, is represented
  by the day number it denotes (days since 1970-01-01): the string order of such dates is
  the order of their day numbers, and the source's falsy test \<open>!lastQualifiedDate\<close>
  on a \<open>string | null\<close> is the test for \<open>None\<close>.

  The functions below are those of \<open>IDateProvider\<close> as \<open>FakeDateProvider\<close>
  implements them, by delegation to date-fns and date-fns-tz, for a process whose own
  zone is UTC. A time zone is an IANA identifier with what the zone database says of it:
  its offset from UTC in milliseconds before the first transition listed, and the
  transitions, each the instant from which a new offset holds, in ascending order.
\<close>

type_synonym instant = int
type_synonym civil_date = int

record zone =
  zoneId :: string
  utcOffset :: int
  transitions :: "(instant \<times> int) list"

definition MS_PER_DAY :: int where
  "MS_PER_DAY = 86400000"

definition MS_PER_MINUTE :: int where
  "MS_PER_MINUTE = 60000"

definition startOfDay :: "instant \<Rightarrow> instant" where
  "startOfDay d = d - d mod MS_PER_DAY"

definition endOfDay :: "instant \<Rightarrow> instant" where
  "endOfDay d = startOfDay d + (MS_PER_DAY - 1)"

definition addDays :: "instant \<Rightarrow> int \<Rightarrow> instant" where
  "addDays d amount = d + amount * MS_PER_DAY"

definition differenceInCalendarDays :: "instant \<Rightarrow> instant \<Rightarrow> int" where
  "differenceInCalendarDays dateLeft dateRight =
     (startOfDay dateLeft - startOfDay dateRight) div MS_PER_DAY"

text \<open>date-fns truncates the quotient towards zero (\<open>Math.trunc\<close>).\<close>

definition differenceInMinutes :: "instant \<Rightarrow> instant \<Rightarrow> int" where
  "differenceInMinutes dateLeft dateRight =
     (if dateRight \<le> dateLeft then (dateLeft - dateRight) div MS_PER_MINUTE
      else - ((dateRight - dateLeft) div MS_PER_MINUTE))"

text \<open>
  The conversions of date-fns-tz. \<open>calcOffset\<close> is the offset of the zone at an instant.
  \<open>toZonedTime\<close> shifts an instant by the offset at that instant: the result shows the
  zone's wall-clock time. \<open>fromZonedTime\<close> goes back from a wall-clock value: it guesses
  the offset at the wall-clock value read as an instant and corrects the guess with
  \<open>fixOffset\<close>. A wall-clock time that occurs twice, when clocks are set back, comes out
  as one of its two instants: in New York, as the earlier.
\<close>

fun offsetFrom :: "(instant \<times> int) list \<Rightarrow> int \<Rightarrow> instant \<Rightarrow> int" where
  "offsetFrom [] current d = current"
| "offsetFrom ((since, offset) # later) current d =
     (if since \<le> d then offsetFrom later offset d else current)"

definition calcOffset :: "instant \<Rightarrow> zone \<Rightarrow> int" where
  "calcOffset d tz = offsetFrom (transitions tz) (utcOffset tz) d"

definition fixOffset :: "instant \<Rightarrow> int \<Rightarrow> zone \<Rightarrow> int" where
  "fixOffset localTS offset tz =
     (let utcGuess = localTS - offset;
          o2 = calcOffset utcGuess tz
      in if offset = o2 then offset
         else (let utcGuess2 = utcGuess - (o2 - offset);
                   o3 = calcOffset utcGuess2 tz
               in if o2 = o3 then o2 else max o2 o3))"

definition toZonedTime :: "instant \<Rightarrow> zone \<Rightarrow> instant" where
  "toZonedTime d tz = d + calcOffset d tz"

definition fromZonedTime :: "instant \<Rightarrow> zone \<Rightarrow> instant" where
  "fromZonedTime d tz = d - fixOffset d (calcOffset d tz) tz"

definition isBefore :: "instant \<Rightarrow> instant \<Rightarrow> bool" where
  "isBefore d dateToCompare = (d < dateToCompare)"

definition isAfter :: "instant \<Rightarrow> instant \<Rightarrow> bool" where
  "isAfter d dateToCompare = (dateToCompare < d)"

definition parseISO :: "civil_date \<Rightarrow> instant" where
  "parseISO dateString = dateString * MS_PER_DAY"

text \<open>\<open>format(date, 'yyyy-MM-dd')\<close>: the civil date of the wall-clock value.\<close>

definition format_date :: "instant \<Rightarrow> civil_date" where
  "format_date d = d div MS_PER_DAY"


section \<open>Errors and schema checks\<close>

datatype error =
    ZodError
  | EndTimeNotAfterStartTime
  | FocusSessionAlreadyExistsError string

text \<open>
  \<open>z.uuid()\<close>: eight, four, four, four and twelve hexadecimal digits separated by
  hyphens, with a version digit 1 to 8 and a variant digit 8, 9, a or b; or the nil or
  the max UUID.
\<close>

text \<open>
  \<open>z.number().int()\<close> admits the safe integers only, from \<open>-(2^53 - 1)\<close> to
  \<open>2^53 - 1\<close>.
\<close>

definition MAX_SAFE_INTEGER :: int where
  "MAX_SAFE_INTEGER = 9007199254740991"

definition is_hex :: "char \<Rightarrow> bool" where
  "is_hex c = (c \<in> set ''0123456789abcdefABCDEF'')"

definition is_uuid :: "string \<Rightarrow> bool" where
  "is_uuid s =
     (s = ''00000000-0000-0000-0000-000000000000''
      \<or> s = ''ffffffff-ffff-ffff-ffff-ffffffffffff''
      \<or> (length s = 36
          \<and> list_all is_hex (take 8 s)
          \<and> s ! 8 = CHR ''-''
          \<and> list_all is_hex (take 4 (drop 9 s))
          \<and> s ! 13 = CHR ''-''
          \<and> s ! 14 \<in> set ''12345678''
          \<and> list_all is_hex (take 3 (drop 15 s))
          \<and> s ! 18 = CHR ''-''
          \<and> s ! 19 \<in> set ''89abAB''
          \<and> list_all is_hex (take 3 (drop 20 s))
          \<and> s ! 23 = CHR ''-''
          \<and> list_all is_hex (drop 24 s)))"


section \<open>UserStreak\<close>

text \<open>
  The aggregate of \<open>user-streak.ts\<close>. The field \<open>streakUserId\<close> is the class's
  \<open>_userId\<close> (the record of a focus session below has a \<open>userId\<close> of its own).
  The counters are integers: the schema admits no other number.
\<close>

record UserStreak =
  streakUserId :: string
  currentStreak :: int
  longestStreak :: int
  lastQualifiedDate :: "civil_date option"
  qualifiedDaysCount :: int
  updatedAt :: instant

definition UserStreakPropsSchema :: "UserStreak \<Rightarrow> bool" where
  "UserStreakPropsSchema props =
     (is_uuid (streakUserId props)
      \<and> 0 \<le> currentStreak props \<and> currentStreak props \<le> MAX_SAFE_INTEGER
      \<and> 0 \<le> longestStreak props \<and> longestStreak props \<le> MAX_SAFE_INTEGER
      \<and> 0 \<le> qualifiedDaysCount props \<and> qualifiedDaysCount props \<le> MAX_SAFE_INTEGER)"

definition UserStreak_create :: "UserStreak \<Rightarrow> error + UserStreak" where
  "UserStreak_create props =
     (if UserStreakPropsSchema props then Inr props else Inl ZodError)"

definition UserStreak_createNew :: "string \<Rightarrow> instant \<Rightarrow> error + UserStreak" where
  "UserStreak_createNew uid now =
     UserStreak_create
       \<lparr>streakUserId = uid, currentStreak = 0, longestStreak = 0,
        lastQualifiedDate = None, qualifiedDaysCount = 0, updatedAt = now\<rparr>"

text \<open>
  \<open>updateWithQualifiedDate\<close> mutates the aggregate in place; the model returns the
  updated aggregate. \<open>now\<close> is what the injected provider's \<open>now()\<close> returns.
\<close>

definition updateWithQualifiedDate :: "UserStreak \<Rightarrow> civil_date \<Rightarrow> instant \<Rightarrow> UserStreak" where
  "updateWithQualifiedDate this qualifiedDate now =
     (case lastQualifiedDate this of
        None \<Rightarrow>
          this\<lparr>currentStreak := 1, longestStreak := 1,
               lastQualifiedDate := Some qualifiedDate,
               qualifiedDaysCount := 1, updatedAt := now\<rparr>
      | Some lastQualified \<Rightarrow>
          (let newDate = startOfDay (parseISO qualifiedDate);
               lastDate = startOfDay (parseISO lastQualified);
               daysDiff = differenceInCalendarDays newDate lastDate
           in if daysDiff = 0 then this\<lparr>updatedAt := now\<rparr>
              else if daysDiff < 0 then
                this\<lparr>qualifiedDaysCount := qualifiedDaysCount this + 1, updatedAt := now\<rparr>
              else if daysDiff = 1 then
                this\<lparr>currentStreak := currentStreak this + 1,
                     longestStreak :=
                       (if longestStreak this < currentStreak this + 1
                        then currentStreak this + 1 else longestStreak this),
                     lastQualifiedDate := Some qualifiedDate,
                     qualifiedDaysCount := qualifiedDaysCount this + 1,
                     updatedAt := now\<rparr>
              else
                this\<lparr>currentStreak := 1,
                     lastQualifiedDate := Some qualifiedDate,
                     qualifiedDaysCount := qualifiedDaysCount this + 1,
                     updatedAt := now\<rparr>))"

definition resetStreak :: "UserStreak \<Rightarrow> instant \<Rightarrow> UserStreak" where
  "resetStreak this now =
     this\<lparr>currentStreak := 0, lastQualifiedDate := None, updatedAt := now\<rparr>"

text \<open>
  The mutating operations of the aggregate, each with the \<open>now()\<close> of its call, and
  the aggregate after each operation of a sequence.
\<close>

datatype streak_op = Qualify civil_date instant | Reset instant

fun apply_streak_op :: "UserStreak \<Rightarrow> streak_op \<Rightarrow> UserStreak" where
  "apply_streak_op s (Qualify d now) = updateWithQualifiedDate s d now"
| "apply_streak_op s (Reset now) = resetStreak s now"

fun streak_history :: "UserStreak \<Rightarrow> streak_op list \<Rightarrow> UserStreak list" where
  "streak_history s [] = [s]"
| "streak_history s (operation # ops) = s # streak_history (apply_streak_op s operation) ops"


section \<open>FocusSession\<close>

record FocusSession =
  sessionId :: string
  userId :: string
  startTime :: instant
  endTime :: instant
  durationMinutes :: int
  timezone :: zone
  createdAt :: instant

definition FocusSessionPropsSchema :: "FocusSession \<Rightarrow> bool" where
  "FocusSessionPropsSchema props =
     (sessionId props \<noteq> []
      \<and> is_uuid (userId props)
      \<and> 0 < durationMinutes props \<and> durationMinutes props \<le> MAX_SAFE_INTEGER
      \<and> zoneId (timezone props) \<noteq> [])"

definition FocusSession_create :: "FocusSession \<Rightarrow> error + FocusSession" where
  "FocusSession_create props =
     (if FocusSessionPropsSchema props then
        (if endTime props \<le> startTime props then Inl EndTimeNotAfterStartTime
         else Inr props)
      else Inl ZodError)"

definition FocusSession_createNew ::
  "string \<Rightarrow> string \<Rightarrow> instant \<Rightarrow> instant \<Rightarrow> zone \<Rightarrow> instant \<Rightarrow> error + FocusSession" where
  "FocusSession_createNew sid uid start end tz now =
     FocusSession_create
       \<lparr>sessionId = sid, userId = uid, startTime = start, endTime = end,
        durationMinutes = differenceInMinutes end start, timezone = tz, createdAt = now\<rparr>"

text \<open>The decimal numeral that a template literal prints for a segment index.\<close>

fun toString :: "nat \<Rightarrow> string" where
  "toString n =
     (if n < 10 then [''0123456789'' ! n]
      else toString (n div 10) @ [''0123456789'' ! (n mod 10)])"

text \<open>
  One iteration of the loop of \<open>splitByDay\<close>: the segment that starts at the
  wall-clock value \<open>currentStart\<close>. \<open>FocusSession.create\<close> may throw.
\<close>

definition splitSegment :: "FocusSession \<Rightarrow> instant \<Rightarrow> instant \<Rightarrow> nat \<Rightarrow> error + FocusSession" where
  "splitSegment this zonedEnd currentStart segmentIndex =
     (let currentDayEnd = endOfDay currentStart;
          currentEnd = (if isBefore currentDayEnd zonedEnd then currentDayEnd else zonedEnd);
          utcSegmentStart = fromZonedTime currentStart (timezone this);
          utcSegmentEnd = fromZonedTime currentEnd (timezone this);
          segmentDuration = differenceInMinutes utcSegmentEnd utcSegmentStart;
          segmentSessionId = sessionId this @ ''-day'' @ toString segmentIndex
      in FocusSession_create
           \<lparr>sessionId = segmentSessionId, userId = userId this,
            startTime = utcSegmentStart, endTime = utcSegmentEnd,
            durationMinutes = segmentDuration, timezone = timezone this,
            createdAt = createdAt this\<rparr>)"

text \<open>
  The \<open>while\<close> loop. The source pushes each segment on \<open>sessions\<close> and leaves by
  the exception of the first \<open>create\<close> that fails; the recursion returns the same
  list, or the same first error.
\<close>

function splitLoop :: "FocusSession \<Rightarrow> instant \<Rightarrow> instant \<Rightarrow> nat \<Rightarrow> error + FocusSession list" where
  "splitLoop this zonedEnd currentStart segmentIndex =
     (if isBefore currentStart zonedEnd then
        (case splitSegment this zonedEnd currentStart segmentIndex of
           Inl e \<Rightarrow> Inl e
         | Inr segment \<Rightarrow>
             (case splitLoop this zonedEnd (addDays (startOfDay currentStart) 1)
                     (segmentIndex + 1) of
                Inl e \<Rightarrow> Inl e
              | Inr sessions \<Rightarrow> Inr (segment # sessions)))
      else Inr [])"
  by pat_completeness auto
termination
proof (relation "measure (\<lambda>(this, zonedEnd, currentStart, segmentIndex). nat (zonedEnd - currentStart))")
  show "wf (measure (\<lambda>(this, zonedEnd, currentStart, segmentIndex). nat (zonedEnd - currentStart)))"
    by simp
next
  fix this :: FocusSession and zonedEnd currentStart :: instant and segmentIndex :: nat
    and x2 :: FocusSession
  assume "isBefore currentStart zonedEnd"
  moreover have "currentStart mod MS_PER_DAY < MS_PER_DAY"
    by (simp add: MS_PER_DAY_def)
  ultimately show
    "((this, zonedEnd, addDays (startOfDay currentStart) 1, segmentIndex + 1),
      (this, zonedEnd, currentStart, segmentIndex))
     \<in> measure (\<lambda>(this, zonedEnd, currentStart, segmentIndex). nat (zonedEnd - currentStart))"
    by (simp add: isBefore_def addDays_def startOfDay_def)
qed

definition splitByDay :: "FocusSession \<Rightarrow> error + FocusSession list" where
  "splitByDay this =
     (let zonedStart = toZonedTime (startTime this) (timezone this);
          zonedEnd = toZonedTime (endTime this) (timezone this);
          startDayEnd = endOfDay zonedStart;
          spansMultipleDays = isAfter zonedEnd startDayEnd
      in if \<not> spansMultipleDays then Inr [this]
         else splitLoop this zonedEnd zonedStart 0)"

definition getQualifiedDate :: "FocusSession \<Rightarrow> civil_date" where
  "getQualifiedDate this = format_date (toZonedTime (startTime this) (timezone this))"

declare splitLoop.simps [simp del]

declare toString.simps [simp del]



text \<open>
  No transition of the session's zone falls across the session: none after its start
  and up to its end, whether the two are read as instants or as wall-clock values.
\<close>

definition steadyOffset :: "FocusSession \<Rightarrow> bool" where
  "steadyOffset this =
     (let offset = calcOffset (startTime this) (timezone this)
      in list_all
           (\<lambda>(since, later).
              since \<le> min (startTime this) (startTime this + offset)
              \<or> max (endTime this) (endTime this + offset) < since)
           (transitions (timezone this)))"


section \<open>The repositories\<close>

text \<open>
  The in-memory repositories: each is a JavaScript \<open>Map\<close>, here an association list
  in insertion order. The store is passed in and returned; an operation that throws
  returns its error.
\<close>

record Store =
  sessions :: "(string \<times> FocusSession) list"
  streaks :: "(string \<times> UserStreak) list"

definition emptyStore :: Store where
  "emptyStore = \<lparr>sessions = [], streaks = []\<rparr>"

definition save :: "Store \<Rightarrow> FocusSession \<Rightarrow> error + Store" where
  "save st session =
     (if map_of (sessions st) (sessionId session) \<noteq> None
      then Inl (FocusSessionAlreadyExistsError (sessionId session))
      else Inr (st\<lparr>sessions := sessions st @ [(sessionId session, session)]\<rparr>))"

definition findById :: "Store \<Rightarrow> string \<Rightarrow> FocusSession option" where
  "findById st sid = map_of (sessions st) sid"

definition getTotalMinutesForDate :: "Store \<Rightarrow> string \<Rightarrow> civil_date \<Rightarrow> int" where
  "getTotalMinutesForDate st uid date =
     foldl (\<lambda>totalMinutes session.
              if userId session \<noteq> uid then totalMinutes
              else if getQualifiedDate session = date
                then totalMinutes + durationMinutes session
                else totalMinutes)
       0 (map snd (sessions st))"

definition saveStreak :: "Store \<Rightarrow> UserStreak \<Rightarrow> Store" where
  "saveStreak st streak =
     st\<lparr>streaks := AList.update (streakUserId streak) streak (streaks st)\<rparr>"

definition findByUserId :: "Store \<Rightarrow> string \<Rightarrow> UserStreak option" where
  "findByUserId st uid = map_of (streaks st) uid"

definition findOrCreate :: "Store \<Rightarrow> string \<Rightarrow> instant \<Rightarrow> error + (UserStreak \<times> Store)" where
  "findOrCreate st uid now =
     (case map_of (streaks st) uid of
        Some existing \<Rightarrow> Inr (existing, st)
      | None \<Rightarrow>
          (case UserStreak_createNew uid now of
             Inl e \<Rightarrow> Inl e
           | Inr newStreak \<Rightarrow>
               Inr (newStreak, st\<lparr>streaks := AList.update uid newStreak (streaks st)\<rparr>)))"


section \<open>AcceptFocusSessionCommandHandler\<close>

definition QUALIFIED_DAY_THRESHOLD_MINUTES :: int where
  "QUALIFIED_DAY_THRESHOLD_MINUTES = 30"

text \<open>
  The loop of \<open>updateUserStreak\<close> over the sorted unique dates. The in-memory
  repository hands out the stored aggregate itself, which the loop mutates; nothing can
  throw between the first mutation and the final \<open>save\<close>, so the store is written once,
  at the end.
\<close>

fun qualifyDates :: "Store \<Rightarrow> string \<Rightarrow> instant \<Rightarrow> UserStreak \<Rightarrow> civil_date list \<Rightarrow> UserStreak" where
  "qualifyDates st uid now userStreak [] = userStreak"
| "qualifyDates st uid now userStreak (date # uniqueDates) =
     (let totalMinutes = getTotalMinutesForDate st uid date
      in qualifyDates st uid now
           (if QUALIFIED_DAY_THRESHOLD_MINUTES \<le> totalMinutes
            then updateWithQualifiedDate userStreak date now
            else userStreak)
           uniqueDates)"

definition updateUserStreak ::
  "Store \<Rightarrow> string \<Rightarrow> FocusSession list \<Rightarrow> instant \<Rightarrow> (error + unit) \<times> Store" where
  "updateUserStreak st uid sessionSegments now =
     (case findOrCreate st uid now of
        Inl e \<Rightarrow> (Inl e, st)
      | Inr (userStreak, st1) \<Rightarrow>
          (let uniqueDates = sort (remdups (map getQualifiedDate sessionSegments))
           in (Inr (), saveStreak st1 (qualifyDates st1 uid now userStreak uniqueDates))))"

text \<open>Step 4 of \<open>execute\<close>: the segments saved so far stay saved when a later one throws.\<close>

fun saveAll :: "Store \<Rightarrow> FocusSession list \<Rightarrow> (error + unit) \<times> Store" where
  "saveAll st [] = (Inr (), st)"
| "saveAll st (segment # segments) =
     (case save st segment of
        Inl e \<Rightarrow> (Inl e, st)
      | Inr st1 \<Rightarrow> saveAll st1 segments)"

definition execute ::
  "Store \<Rightarrow> string \<Rightarrow> string \<Rightarrow> instant \<Rightarrow> instant \<Rightarrow> zone \<Rightarrow> instant \<Rightarrow> (error + unit) \<times> Store" where
  "execute st sid uid start end tz now =
     (case findById st sid of
        Some existingSession \<Rightarrow> (Inr (), st)
      | None \<Rightarrow>
          (case FocusSession_createNew sid uid start end tz now of
             Inl e \<Rightarrow> (Inl e, st)
           | Inr session \<Rightarrow>
               (case splitByDay session of
                  Inl e \<Rightarrow> (Inl e, st)
                | Inr sessionSegments \<Rightarrow>
                    (case saveAll st sessionSegments of
                       (Inl e, st1) \<Rightarrow> (Inl e, st1)
                     | (Inr u, st1) \<Rightarrow> updateUserStreak st1 uid sessionSegments now))))"


section \<open>GetUserStreakQueryHandler\<close>

record UserStreakResult =
  resultUserId :: string
  resultCurrentStreak :: int
  resultLongestStreak :: int
  resultLastQualifiedDate :: "civil_date option"
  resultQualifiedDaysCount :: int

definition getUserStreak :: "Store \<Rightarrow> string \<Rightarrow> UserStreakResult" where
  "getUserStreak st uid =
     (case findByUserId st uid of
        None \<Rightarrow>
          \<lparr>resultUserId = uid, resultCurrentStreak = 0, resultLongestStreak = 0,
           resultLastQualifiedDate = None, resultQualifiedDaysCount = 0\<rparr>
      | Some streak \<Rightarrow>
          \<lparr>resultUserId = streakUserId streak,
           resultCurrentStreak = currentStreak streak,
           resultLongestStreak = longestStreak streak,
           resultLastQualifiedDate = lastQualifiedDate streak,
           resultQualifiedDaysCount = qualifiedDaysCount streak\<rparr>)"


section \<open>Sample data\<close>

text \<open>The user of the repository's tests, and aggregates its tests build.\<close>

definition testUserId :: string where
  "testUserId = ''550e8400-e29b-41d4-a716-446655440000''"

definition freshStreak :: UserStreak where
  "freshStreak =
     \<lparr>streakUserId = testUserId, currentStreak = 0, longestStreak = 0,
      lastQualifiedDate = None, qualifiedDaysCount = 0, updatedAt = 0\<rparr>"

text \<open>
  The aggregate that \<open>get-user-streak.query.spec.ts\<close> calls a broken streak with
  history: no last qualified date, a record of 15 and 20 qualified days.
\<close>

definition brokenStreak :: UserStreak where
  "brokenStreak =
     \<lparr>streakUserId = testUserId, currentStreak = 0, longestStreak = 15,
      lastQualifiedDate = None, qualifiedDaysCount = 20, updatedAt = 0\<rparr>"

text \<open>A streak of 5 whose last qualified date is 2025-01-15, day 20103.\<close>

definition scenarioD :: UserStreak where
  "scenarioD =
     \<lparr>streakUserId = testUserId, currentStreak = 5, longestStreak = 5,
      lastQualifiedDate = Some 20103, qualifiedDaysCount = 10, updatedAt = 0\<rparr>"

text \<open>A last qualified date with a current streak of 0, which no reset leaves behind.\<close>

definition droppedStreak :: UserStreak where
  "droppedStreak =
     \<lparr>streakUserId = testUserId, currentStreak = 0, longestStreak = 0,
      lastQualifiedDate = Some 20103, qualifiedDaysCount = 0, updatedAt = 0\<rparr>"

definition otherUserId :: string where
  "otherUserId = ''660e8400-e29b-41d4-a716-446655440001''"

definition storeOfScenarioD :: Store where
  "storeOfScenarioD = saveStreak emptyStore scenarioD"

text \<open>Two zones without transitions, and instants of 2025-01-15 and 2025-01-16 (UTC).\<close>

definition UTC :: zone where
  "UTC = \<lparr>zoneId = ''UTC'', utcOffset = 0, transitions = []\<rparr>"

definition Asia_Tokyo :: zone where
  "Asia_Tokyo = \<lparr>zoneId = ''Asia/Tokyo'', utcOffset = 9 * 3600000, transitions = []\<rparr>"


definition jan15_10h :: instant where
  "jan15_10h = 20103 * 86400000 + 10 * 3600000"

definition jan15_23h :: instant where
  "jan15_23h = 20103 * 86400000 + 23 * 3600000"

definition jan16_00h :: instant where
  "jan16_00h = 20104 * 86400000"

definition jan16_01h :: instant where
  "jan16_01h = 20104 * 86400000 + 1 * 3600000"

text \<open>
  A user known to the store: a streak of 1 that ended on 2025-01-14, day 20102, and a
  session of 15 minutes on 2025-01-15 at 08:00 UTC. Two sessions to come at 10:00 UTC,
  of 15 and of 14 minutes, as \<open>createNew\<close> builds them at the instant 7.
\<close>

definition yesterdayStreak :: UserStreak where
  "yesterdayStreak =
     \<lparr>streakUserId = testUserId, currentStreak = 1, longestStreak = 1,
      lastQualifiedDate = Some 20102, qualifiedDaysCount = 1, updatedAt = 0\<rparr>"

definition morning15 :: FocusSession where
  "morning15 =
     \<lparr>sessionId = ''morning-15'', userId = testUserId, startTime = jan15_10h - 2 * 3600000,
      endTime = jan15_10h - 2 * 3600000 + 15 * 60000, durationMinutes = 15, timezone = UTC,
      createdAt = 0\<rparr>"

definition returningStore :: Store where
  "returningStore =
     \<lparr>sessions = [(''morning-15'', morning15)], streaks = [(testUserId, yesterdayStreak)]\<rparr>"

definition second15 :: FocusSession where
  "second15 =
     \<lparr>sessionId = ''second-15'', userId = testUserId, startTime = jan15_10h,
      endTime = jan15_10h + 15 * 60000, durationMinutes = 15, timezone = UTC,
      createdAt = 7\<rparr>"

definition second14 :: FocusSession where
  "second14 =
     \<lparr>sessionId = ''second-14'', userId = testUserId, startTime = jan15_10h,
      endTime = jan15_10h + 14 * 60000, durationMinutes = 14, timezone = UTC,
      createdAt = 7\<rparr>"

text \<open>The session from 23:00 to 01:00 UTC of the handler's tests, and its two segments.\<close>

definition midnightSession :: FocusSession where
  "midnightSession =
     \<lparr>sessionId = ''midnight-session'', userId = testUserId, startTime = jan15_23h,
      endTime = jan16_01h, durationMinutes = 120, timezone = UTC, createdAt = 0\<rparr>"

definition midnightDay0 :: FocusSession where
  "midnightDay0 =
     \<lparr>sessionId = ''midnight-session-day0'', userId = testUserId, startTime = jan15_23h,
      endTime = jan16_00h - 1, durationMinutes = 59, timezone = UTC, createdAt = 0\<rparr>"

definition midnightDay1 :: FocusSession where
  "midnightDay1 =
     \<lparr>sessionId = ''midnight-session-day1'', userId = testUserId, startTime = jan16_00h,
      endTime = jan16_01h, durationMinutes = 60, timezone = UTC, createdAt = 0\<rparr>"

definition afterMidnightSession :: Store where
  "afterMidnightSession =
     snd (execute emptyStore ''midnight-session'' testUserId jan15_23h jan16_01h UTC 0)"



text \<open>
  A session from 23:00 to 01:00 in Tokyo (14:00 to 16:00 UTC), its two segments, and the
  store after its ingestion.
\<close>

definition tokyoNight :: FocusSession where
  "tokyoNight =
     \<lparr>sessionId = ''tokyo-night'', userId = testUserId,
      startTime = jan15_10h + 4 * 3600000, endTime = jan15_10h + 6 * 3600000,
      durationMinutes = 120, timezone = Asia_Tokyo, createdAt = 0\<rparr>"

definition tokyoDay0 :: FocusSession where
  "tokyoDay0 =
     \<lparr>sessionId = ''tokyo-night-day0'', userId = testUserId,
      startTime = jan15_10h + 4 * 3600000, endTime = jan15_10h + 5 * 3600000 - 1,
      durationMinutes = 59, timezone = Asia_Tokyo, createdAt = 0\<rparr>"

definition tokyoDay1 :: FocusSession where
  "tokyoDay1 =
     \<lparr>sessionId = ''tokyo-night-day1'', userId = testUserId,
      startTime = jan15_10h + 5 * 3600000, endTime = jan15_10h + 6 * 3600000,
      durationMinutes = 60, timezone = Asia_Tokyo, createdAt = 0\<rparr>"

definition tokyoStore :: Store where
  "tokyoStore =
     \<lparr>sessions = [(''tokyo-night-day0'', tokyoDay0), (''tokyo-night-day1'', tokyoDay1)],
      streaks =
        [(testUserId,
          \<lparr>streakUserId = testUserId, currentStreak = 2, longestStreak = 2,
           lastQualifiedDate = Some 20104, qualifiedDaysCount = 2, updatedAt = 0\<rparr>)]\<rparr>"










section \<open>Facts about the date provider\<close>

lemma startOfDay_parseISO: "startOfDay (parseISO d) = parseISO d"
  by (simp add: startOfDay_def parseISO_def)

lemma calendar_diff_of_dates:
  "differenceInCalendarDays (startOfDay (parseISO d)) (startOfDay (parseISO e)) = d - e"
proof -
  have "d * MS_PER_DAY - e * MS_PER_DAY = (d - e) * MS_PER_DAY"
    by (simp add: algebra_simps)
  then show ?thesis
    by (simp add: differenceInCalendarDays_def startOfDay_def parseISO_def MS_PER_DAY_def)
qed


lemma is_uuid_testUserId: "is_uuid testUserId"
  by (simp add: is_uuid_def testUserId_def is_hex_def)


section \<open>The streak transition\<close>

text \<open>The transition with the date arithmetic carried out, branch by branch.\<close>

lemma updateWithQualifiedDate_branches:
  "updateWithQualifiedDate s d now =
     (case lastQualifiedDate s of
        None \<Rightarrow> s\<lparr>currentStreak := 1, longestStreak := 1, lastQualifiedDate := Some d,
                  qualifiedDaysCount := 1, updatedAt := now\<rparr>
      | Some l \<Rightarrow>
          if d = l then s\<lparr>updatedAt := now\<rparr>
          else if d < l then s\<lparr>qualifiedDaysCount := qualifiedDaysCount s + 1, updatedAt := now\<rparr>
          else if d = l + 1 then
            s\<lparr>currentStreak := currentStreak s + 1,
              longestStreak := max (longestStreak s) (currentStreak s + 1),
              lastQualifiedDate := Some d,
              qualifiedDaysCount := qualifiedDaysCount s + 1, updatedAt := now\<rparr>
          else s\<lparr>currentStreak := 1, lastQualifiedDate := Some d,
                 qualifiedDaysCount := qualifiedDaysCount s + 1, updatedAt := now\<rparr>)"
  by (auto simp: updateWithQualifiedDate_def calendar_diff_of_dates Let_def max_def
      split: option.splits)

text \<open>
  With a last qualified date, every branch keeps or raises \<open>longestStreak\<close> and
  \<open>qualifiedDaysCount\<close>, and so does \<open>resetStreak\<close>: only the branch for no last
  qualified date assigns both.
\<close>

lemma update_after_last_date_monotone:
  "lastQualifiedDate s = Some l \<Longrightarrow>
   longestStreak s \<le> longestStreak (updateWithQualifiedDate s d now)
   \<and> qualifiedDaysCount s \<le> qualifiedDaysCount (updateWithQualifiedDate s d now)"
  by (simp add: updateWithQualifiedDate_branches)

lemma resetStreak_keeps_history:
  "longestStreak (resetStreak s now) = longestStreak s
   \<and> qualifiedDaysCount (resetStreak s now) = qualifiedDaysCount s"
  by (simp add: resetStreak_def)

lemma update_first_date:
  "lastQualifiedDate s = None \<Longrightarrow>
   updateWithQualifiedDate s d now =
     s\<lparr>currentStreak := 1, longestStreak := 1, lastQualifiedDate := Some d,
       qualifiedDaysCount := 1, updatedAt := now\<rparr>"
  by (simp add: updateWithQualifiedDate_def)

text \<open>
  C3. With no last qualified date the transition should give a current streak of 1, the
  longest streak \<open>max longestStreak 1\<close>, the date, and one more qualified day. The code
  assigns 1 to the longest streak and to the count of qualified days: on the aggregate
  with a record of 15 and 20 qualified days it returns 1 and 1, where the specification asks for
  15 and 21 (the date is 2025-01-16, day 20104).
\<close>

theorem first_date_discards_history:
  "longestStreak (updateWithQualifiedDate brokenStreak 20104 1) = 1
   \<and> qualifiedDaysCount (updateWithQualifiedDate brokenStreak 20104 1) = 1
   \<and> max (longestStreak brokenStreak) 1 = 15
   \<and> qualifiedDaysCount brokenStreak + 1 = 21"
  by (simp add: updateWithQualifiedDate_def brokenStreak_def)

text \<open>
  C4. Over any sequence of operations the longest streak should never decrease and
  stay at or above every current streak seen, and the count of qualified days should
  never decrease. From a new aggregate, two consecutive qualifying days, a reset and one
  more qualifying day: the longest streak goes 0, 1, 2, 2, 1, below the current streak
  of 2 seen before, and the count of qualified days goes 0, 1, 2, 2, 1.
\<close>

theorem reset_then_qualify_lowers_longest:
  "map longestStreak
     (streak_history freshStreak
        [Qualify 20103 1, Qualify 20104 2, Reset 3, Qualify 20110 4]) = [0, 1, 2, 2, 1]
   \<and> map currentStreak
     (streak_history freshStreak
        [Qualify 20103 1, Qualify 20104 2, Reset 3, Qualify 20110 4]) = [0, 1, 2, 0, 1]
   \<and> map qualifiedDaysCount
     (streak_history freshStreak
        [Qualify 20103 1, Qualify 20104 2, Reset 3, Qualify 20110 4]) = [0, 1, 2, 2, 1]"
  by (simp add: updateWithQualifiedDate_branches resetStreak_def freshStreak_def)

text \<open>
  C7. A qualifying date before the last qualified date (a negative difference in
  calendar days) adds one to the count of qualified days and leaves the current streak,
  the longest streak and the last qualified date as they were.
\<close>

theorem late_date_only_counts:
  assumes "lastQualifiedDate s = Some lastQualified"
    and "differenceInCalendarDays (startOfDay (parseISO d))
           (startOfDay (parseISO lastQualified)) < 0"
  shows "qualifiedDaysCount (updateWithQualifiedDate s d now) = qualifiedDaysCount s + 1
    \<and> currentStreak (updateWithQualifiedDate s d now) = currentStreak s
    \<and> longestStreak (updateWithQualifiedDate s d now) = longestStreak s
    \<and> lastQualifiedDate (updateWithQualifiedDate s d now) = lastQualifiedDate s"
  using assms by (simp add: updateWithQualifiedDate_def Let_def)

text \<open>Scenario D of the specification: a late 2025-01-12 after 2025-01-15.\<close>

theorem late_date_only_counts_witness:
  "lastQualifiedDate scenarioD = Some 20103
   \<and> differenceInCalendarDays (startOfDay (parseISO 20100)) (startOfDay (parseISO 20103)) < 0
   \<and> qualifiedDaysCount (updateWithQualifiedDate scenarioD 20100 7) = 11
   \<and> currentStreak (updateWithQualifiedDate scenarioD 20100 7) = 5
   \<and> longestStreak (updateWithQualifiedDate scenarioD 20100 7) = 5
   \<and> lastQualifiedDate (updateWithQualifiedDate scenarioD 20100 7) = Some 20103"
proof -
  have h1: "lastQualifiedDate scenarioD = Some 20103"
    by (simp add: scenarioD_def)
  have h2: "differenceInCalendarDays (startOfDay (parseISO 20100))
              (startOfDay (parseISO 20103)) < 0"
    by (simp add: calendar_diff_of_dates)
  show ?thesis
    using late_date_only_counts [OF h1 h2, of 7] h1 h2 by (simp add: scenarioD_def)
qed

text \<open>
  C10. Every branch of the transition sets \<open>updatedAt\<close> to the provider's \<open>now()\<close>,
  the same-day and the late branch included, and no operation changes the user of the
  aggregate: not the transition, not the reset, nor any sequence of them.
\<close>

theorem update_sets_updatedAt_keeps_userId:
  "updatedAt (updateWithQualifiedDate s d now) = now
   \<and> streakUserId (updateWithQualifiedDate s d now) = streakUserId s
   \<and> streakUserId (resetStreak s now) = streakUserId s
   \<and> list_all (\<lambda>s'. streakUserId s' = streakUserId s) (streak_history s ops)"
proof -
  have u: "\<And>s d now. streakUserId (updateWithQualifiedDate s d now) = streakUserId s"
    by (simp add: updateWithQualifiedDate_def Let_def split: option.splits)
  have r: "\<And>s now. streakUserId (resetStreak s now) = streakUserId s"
    by (simp add: resetStreak_def)
  have a: "\<And>s operation. streakUserId (apply_streak_op s operation) = streakUserId s"
    subgoal for s operation by (cases operation) (simp_all add: u r)
    done
  have h: "list_all (\<lambda>s'. streakUserId s' = streakUserId s) (streak_history s ops)"
  proof (induction ops arbitrary: s)
    case Nil
    show ?case by simp
  next
    case (Cons operation ops)
    from Cons.IH [of "apply_streak_op s operation"] show ?case
      by (simp add: a)
  qed
  have t: "updatedAt (updateWithQualifiedDate s d now) = now"
    by (simp add: updateWithQualifiedDate_def Let_def split: option.splits)
  show ?thesis using u r h t by simp
qed


section \<open>Construction of the aggregate\<close>

text \<open>\<open>create\<close> does not look at the last qualified date.\<close>

lemma create_ignores_lastQualifiedDate:
  "isl (UserStreak_create (props\<lparr>lastQualifiedDate := d\<rparr>)) = isl (UserStreak_create props)"
  by (simp add: UserStreak_create_def UserStreakPropsSchema_def)

text \<open>
  C8 as the specification states it: construction fails, with an error of the name
  \<open>CorruptAggregateState\<close>, for a last qualified date with a current streak of 0 that
  no reset produced. \<open>UserStreak.create\<close> checks each field on its own and accepts this
  aggregate; the error it throws, for a negative field, is the schema's.
\<close>

theorem create_accepts_zero_streak_with_date:
  "UserStreak_create droppedStreak = Inr droppedStreak
   \<and> lastQualifiedDate droppedStreak = Some 20103
   \<and> currentStreak droppedStreak = 0
   \<and> UserStreak_create (droppedStreak\<lparr>currentStreak := - 1\<rparr>) = Inl ZodError"
  by (simp add: UserStreak_create_def UserStreakPropsSchema_def droppedStreak_def
      is_uuid_testUserId MAX_SAFE_INTEGER_def)

text \<open>
  C8, amended. \<open>UserStreak.create\<close> fails, with the schema's validation error, when
  the current streak, the longest streak or the count of qualified days is negative, and
  it never clamps: when it succeeds, the aggregate has the fields as they were given.
\<close>

theorem create_rejects_negative_fields:
  "(currentStreak props < 0 \<or> longestStreak props < 0 \<or> qualifiedDaysCount props < 0
      \<longrightarrow> UserStreak_create props = Inl ZodError)
   \<and> (UserStreak_create props = Inr streak \<longrightarrow> streak = props)"
  by (auto simp: UserStreak_create_def UserStreakPropsSchema_def split: if_splits)

theorem create_rejects_negative_fields_witness:
  "UserStreak_create (scenarioD\<lparr>currentStreak := - 1\<rparr>) = Inl ZodError
   \<and> UserStreak_create (scenarioD\<lparr>longestStreak := - 1\<rparr>) = Inl ZodError
   \<and> UserStreak_create (scenarioD\<lparr>qualifiedDaysCount := - 1\<rparr>) = Inl ZodError
   \<and> UserStreak_create scenarioD = Inr scenarioD"
proof -
  have ok: "UserStreak_create scenarioD = Inr scenarioD"
    by (simp add: UserStreak_create_def UserStreakPropsSchema_def scenarioD_def
        is_uuid_testUserId MAX_SAFE_INTEGER_def)
  from create_rejects_negative_fields [of "scenarioD\<lparr>currentStreak := - 1\<rparr>"]
    create_rejects_negative_fields [of "scenarioD\<lparr>longestStreak := - 1\<rparr>"]
    create_rejects_negative_fields [of "scenarioD\<lparr>qualifiedDaysCount := - 1\<rparr>"]
    create_rejects_negative_fields [of scenarioD scenarioD] ok
  show ?thesis
    by (simp add: scenarioD_def)
qed


section \<open>The streak of an unknown user\<close>

text \<open>
  C9. For a user with no stored aggregate the query returns the zero aggregate: streaks
  of 0, no last qualified date, no qualified days. The query is a total function of the
  store: it has no error to return.
\<close>

theorem unknown_user_zero_streak:
  "findByUserId st uid = None \<Longrightarrow>
   getUserStreak st uid =
     \<lparr>resultUserId = uid, resultCurrentStreak = 0, resultLongestStreak = 0,
      resultLastQualifiedDate = None, resultQualifiedDaysCount = 0\<rparr>"
  by (simp add: getUserStreak_def)

theorem unknown_user_zero_streak_witness:
  "findByUserId storeOfScenarioD otherUserId = None
   \<and> getUserStreak storeOfScenarioD otherUserId =
     \<lparr>resultUserId = otherUserId, resultCurrentStreak = 0, resultLongestStreak = 0,
      resultLastQualifiedDate = None, resultQualifiedDaysCount = 0\<rparr>
   \<and> resultCurrentStreak (getUserStreak storeOfScenarioD testUserId) = 5"
proof -
  have h: "findByUserId storeOfScenarioD otherUserId = None"
    by (simp add: findByUserId_def storeOfScenarioD_def saveStreak_def emptyStore_def
        scenarioD_def testUserId_def otherUserId_def)
  have k: "resultCurrentStreak (getUserStreak storeOfScenarioD testUserId) = 5"
    by (simp add: getUserStreak_def findByUserId_def storeOfScenarioD_def saveStreak_def
        emptyStore_def scenarioD_def)
  show ?thesis
    using unknown_user_zero_streak [OF h] h k by simp
qed


section \<open>Splitting a session by day\<close>

lemma startOfDay_le: "startOfDay x \<le> x"
  by (simp add: startOfDay_def MS_PER_DAY_def)

lemma le_endOfDay: "x \<le> endOfDay x"
proof -
  have "x mod MS_PER_DAY < MS_PER_DAY" by (simp add: MS_PER_DAY_def)
  then show ?thesis by (simp add: endOfDay_def startOfDay_def)
qed

lemma startOfDay_eq: "startOfDay x = format_date x * MS_PER_DAY"
  by (simp add: startOfDay_def format_date_def minus_mod_eq_div_mult)

lemma same_day:
  assumes "startOfDay x \<le> y" and "y \<le> endOfDay x"
  shows "format_date y = format_date x"
proof -
  have "y = MS_PER_DAY * format_date x + (y - startOfDay x)"
    by (simp add: startOfDay_eq)
  moreover have "0 \<le> y - startOfDay x" using assms by simp
  moreover have "y - startOfDay x < MS_PER_DAY" using assms by (simp add: endOfDay_def)
  ultimately have "y div MS_PER_DAY = format_date x"
    by (rule int_div_pos_eq)
  then show ?thesis by (simp add: format_date_def)
qed


text \<open>A midnight after an instant lies after the end of that instant's day.\<close>

lemma midnight_after:
  assumes "ze mod MS_PER_DAY = 0" and "cs < ze"
  shows "endOfDay cs < ze"
proof -
  have ze: "ze = (ze div MS_PER_DAY) * MS_PER_DAY"
    using assms(1) div_mult_mod_eq [of ze MS_PER_DAY] by simp
  have "format_date cs * MS_PER_DAY \<le> cs"
    using startOfDay_le [of cs] by (simp add: startOfDay_eq)
  with assms(2) ze have "format_date cs * MS_PER_DAY < (ze div MS_PER_DAY) * MS_PER_DAY"
    by simp
  then have "format_date cs < ze div MS_PER_DAY"
    by (simp add: MS_PER_DAY_def)
  then have "format_date cs + 1 \<le> ze div MS_PER_DAY"
    by simp
  then have "(format_date cs + 1) * MS_PER_DAY \<le> (ze div MS_PER_DAY) * MS_PER_DAY"
    by (simp add: MS_PER_DAY_def)
  with ze have "format_date cs * MS_PER_DAY + MS_PER_DAY \<le> ze"
    by (simp add: algebra_simps)
  then show ?thesis
    by (simp add: endOfDay_def startOfDay_eq)
qed


text \<open>
  Between two instants with no transition after the first and up to the second, the
  offset of a zone is that at the first.
\<close>

lemma offsetFrom_steady:
  assumes "list_all (\<lambda>(since, later). since \<le> lo \<or> hi < since) trs"
    and "lo \<le> d" and "d \<le> hi"
  shows "offsetFrom trs current d = offsetFrom trs current lo"
  using assms by (induction trs arbitrary: current) auto

text \<open>
  For a session with a steady offset the two conversions are the shift by that offset
  and the shift back, on the session's instants and on its wall-clock values.
\<close>

lemma steady_conversions:
  assumes "steadyOffset this" and "startTime this \<le> endTime this"
  shows "startTime this \<le> d \<Longrightarrow> d \<le> endTime this \<Longrightarrow>
      toZonedTime d (timezone this) = d + calcOffset (startTime this) (timezone this)"
    and "startTime this + calcOffset (startTime this) (timezone this) \<le> w \<Longrightarrow>
      w \<le> endTime this + calcOffset (startTime this) (timezone this) \<Longrightarrow>
      fromZonedTime w (timezone this) = w - calcOffset (startTime this) (timezone this)"
proof -
  let ?tz = "timezone this"
  let ?o = "calcOffset (startTime this) ?tz"
  let ?lo = "min (startTime this) (startTime this + ?o)"
  let ?hi = "max (endTime this) (endTime this + ?o)"
  from assms(1) have st:
    "list_all (\<lambda>(since, later). since \<le> ?lo \<or> ?hi < since) (transitions ?tz)"
    by (simp add: steadyOffset_def Let_def)
  have c: "calcOffset x ?tz = ?o" if "?lo \<le> x" and "x \<le> ?hi" for x
  proof -
    have s1: "?lo \<le> startTime this" by simp
    have s2: "startTime this \<le> ?hi" using assms(2) by simp
    from offsetFrom_steady [OF st that, of "utcOffset ?tz"]
    have "calcOffset x ?tz = calcOffset ?lo ?tz"
      by (simp only: calcOffset_def)
    moreover from offsetFrom_steady [OF st s1 s2, of "utcOffset ?tz"]
    have "calcOffset (startTime this) ?tz = calcOffset ?lo ?tz"
      by (simp only: calcOffset_def)
    ultimately show ?thesis by simp
  qed
  show "toZonedTime d ?tz = d + ?o" if "startTime this \<le> d" and "d \<le> endTime this"
  proof -
    from that have "calcOffset d ?tz = ?o" by (intro c) simp_all
    then show ?thesis by (simp add: toZonedTime_def)
  qed
  show "fromZonedTime w ?tz = w - ?o"
    if "startTime this + ?o \<le> w" and "w \<le> endTime this + ?o"
  proof -
    from that have w: "calcOffset w ?tz = ?o" by (intro c) simp_all
    from that have "calcOffset (w - ?o) ?tz = ?o" by (intro c) simp_all
    with w show ?thesis by (simp add: fromZonedTime_def fixOffset_def Let_def)
  qed
qed

lemma FocusSession_create_Inr:
  "FocusSession_create props = Inr session \<Longrightarrow>
   session = props \<and> startTime props < endTime props \<and> FocusSessionPropsSchema props"
  by (simp add: FocusSession_create_def split: if_splits)





text \<open>A session that ends by the end of the civil day on which it starts is not split.\<close>

lemma single_day_not_split:
  "\<not> isAfter (toZonedTime (endTime this) (timezone this))
       (endOfDay (toZonedTime (startTime this) (timezone this))) \<Longrightarrow>
   splitByDay this = Inr [this]"
  by (simp add: splitByDay_def Let_def)

text \<open>
  An iteration returns its segment, and the loop its list, when the piece of the session
  that the iteration cuts lasts a minute at least.
\<close>

lemma splitSegment_returns:
  assumes valid: "FocusSessionPropsSchema this"
    and conv: "\<forall>w. zs \<le> w \<and> w \<le> ze \<longrightarrow>
      fromZonedTime w (timezone this) = w - off \<and> toZonedTime (w - off) (timezone this) = w"
    and zs: "zs \<le> cs" and cs: "cs < ze"
    and long: "MS_PER_MINUTE \<le> (if endOfDay cs < ze then endOfDay cs else ze) - cs"
  shows "\<exists>seg. splitSegment this ze cs i = Inr seg"
proof -
  let ?ce = "if endOfDay cs < ze then endOfDay cs else ze"
  have ce: "cs \<le> ?ce" "?ce \<le> ze" "?ce \<le> endOfDay cs"
    using cs le_endOfDay [of cs] by simp_all
  from conv zs cs have s1: "fromZonedTime cs (timezone this) = cs - off"
    by simp
  from zs ce have "zs \<le> ?ce \<and> ?ce \<le> ze" by linarith
  with conv have e1: "fromZonedTime ?ce (timezone this) = ?ce - off"
    by blast
  have "?ce - cs \<le> MS_PER_DAY - 1"
    using ce(3) startOfDay_le [of cs] by (simp add: endOfDay_def)
  then have "(?ce - cs) div MS_PER_MINUTE \<le> (MS_PER_DAY - 1) div MS_PER_MINUTE"
    by (intro zdiv_mono1) (simp_all add: MS_PER_MINUTE_def)
  then have up: "(?ce - cs) div MS_PER_MINUTE \<le> MAX_SAFE_INTEGER"
    by (simp add: MS_PER_DAY_def MS_PER_MINUTE_def MAX_SAFE_INTEGER_def)
  from long have "MS_PER_MINUTE div MS_PER_MINUTE \<le> (?ce - cs) div MS_PER_MINUTE"
    by (intro zdiv_mono1) (simp_all add: MS_PER_MINUTE_def)
  then have pos: "0 < (?ce - cs) div MS_PER_MINUTE"
    by (simp add: MS_PER_MINUTE_def)
  from long have lt: "cs < ?ce" by (simp add: MS_PER_MINUTE_def split: if_splits)
  have d: "differenceInMinutes (?ce - off) (cs - off) = (?ce - cs) div MS_PER_MINUTE"
    using ce(1) by (simp add: differenceInMinutes_def)
  show ?thesis
    unfolding splitSegment_def Let_def isBefore_def s1 e1 d FocusSession_create_def
      FocusSessionPropsSchema_def
    using valid pos up lt by (simp add: FocusSessionPropsSchema_def)
qed

lemma splitLoop_returns:
  assumes "FocusSessionPropsSchema this"
    and "\<forall>w. zs \<le> w \<and> w \<le> ze \<longrightarrow>
      fromZonedTime w (timezone this) = w - off \<and> toZonedTime (w - off) (timezone this) = w"
    and "zs \<le> cs"
    and "cs mod MS_PER_DAY = 0 \<or> endOfDay cs < ze \<and> MS_PER_MINUTE \<le> endOfDay cs - cs"
    and "ze mod MS_PER_DAY = 0 \<or> MS_PER_MINUTE \<le> ze mod MS_PER_DAY"
  shows "\<exists>segs. splitLoop this ze cs i = Inr segs"
  using assms
proof (induction this ze cs i rule: splitLoop.induct)
  case (1 this ze cs i)
  let ?next = "addDays (startOfDay cs) 1"
  note valid = "1.prems"(1) and conv = "1.prems"(2) and zs = "1.prems"(3)
    and first = "1.prems"(4) and final = "1.prems"(5)
  show ?case
  proof (cases "cs < ze")
    case False
    then show ?thesis by (simp add: splitLoop.simps [of this ze cs i] isBefore_def)
  next
    case True
    have long: "MS_PER_MINUTE \<le> (if endOfDay cs < ze then endOfDay cs else ze) - cs"
    proof (cases "endOfDay cs < ze")
      case e: True
      from first show ?thesis
      proof
        assume "cs mod MS_PER_DAY = 0"
        then have "endOfDay cs - cs = MS_PER_DAY - 1"
          by (simp add: endOfDay_def startOfDay_def)
        with e show ?thesis by (simp add: MS_PER_DAY_def MS_PER_MINUTE_def)
      next
        assume "endOfDay cs < ze \<and> MS_PER_MINUTE \<le> endOfDay cs - cs"
        with e show ?thesis by simp
      qed
    next
      case e: False
      with first have m: "cs mod MS_PER_DAY = 0" by auto
      from e True have nz: "ze mod MS_PER_DAY \<noteq> 0"
        using midnight_after [of ze cs] by auto
      from e True startOfDay_le [of cs] have "startOfDay cs \<le> ze" "ze \<le> endOfDay cs"
        by simp_all
      then have "format_date ze = format_date cs" by (rule same_day)
      then have "startOfDay ze = startOfDay cs" by (simp add: startOfDay_eq)
      with m have "ze mod MS_PER_DAY = ze - cs"
        by (simp add: startOfDay_def)
      with final nz e show ?thesis by simp
    qed
    from splitSegment_returns [OF valid conv zs True long]
    obtain seg where seg: "splitSegment this ze cs i = Inr seg" by blast
    from True have b: "isBefore cs ze" by (simp add: isBefore_def)
    have zn: "zs \<le> ?next"
      using zs le_endOfDay [of cs] by (simp add: addDays_def endOfDay_def)
    have mid: "?next mod MS_PER_DAY = 0 \<or> endOfDay ?next < ze \<and> MS_PER_MINUTE \<le> endOfDay ?next - ?next"
      by (simp add: addDays_def startOfDay_eq)
    from "1.IH" [OF b seg valid conv zn mid final]
    obtain rest where "splitLoop this ze ?next (i + 1) = Inr rest" by blast
    with seg True show ?thesis
      by (simp add: splitLoop.simps [of this ze cs i] isBefore_def)
  qed
qed

text \<open>
  When \<open>splitByDay\<close> returns: for a session that \<open>create\<close> accepts, in a zone with no
  transition across it, when the session is not split, or when its part before the first
  midnight and its part after the last midnight each last a minute at least.
\<close>

lemma splitByDay_returns:
  assumes "FocusSession_create this = Inr this" and "steadyOffset this"
    and "isAfter (toZonedTime (endTime this) (timezone this))
           (endOfDay (toZonedTime (startTime this) (timezone this)))
         \<longrightarrow> MS_PER_MINUTE \<le> endOfDay (toZonedTime (startTime this) (timezone this))
                 - toZonedTime (startTime this) (timezone this)
             \<and> (toZonedTime (endTime this) (timezone this) mod MS_PER_DAY = 0
                \<or> MS_PER_MINUTE \<le> toZonedTime (endTime this) (timezone this) mod MS_PER_DAY)"
  shows "\<exists>segments. splitByDay this = Inr segments"
proof -
  let ?tz = "timezone this"
  let ?o = "calcOffset (startTime this) ?tz"
  let ?zs = "toZonedTime (startTime this) ?tz"
  let ?ze = "toZonedTime (endTime this) ?tz"
  from assms(1) have valid: "FocusSessionPropsSchema this" and lt0: "startTime this < endTime this"
    by (auto dest: FocusSession_create_Inr)
  then have le: "startTime this \<le> endTime this" by simp
  note sc = steady_conversions [OF assms(2) le]
  have zs: "?zs = startTime this + ?o" using le by (simp add: sc(1))
  have ze: "?ze = endTime this + ?o" using le by (simp add: sc(1))
  have conv: "\<forall>w. ?zs \<le> w \<and> w \<le> ?ze \<longrightarrow>
      fromZonedTime w ?tz = w - ?o \<and> toZonedTime (w - ?o) ?tz = w"
  proof (intro allI impI)
    fix w assume w: "?zs \<le> w \<and> w \<le> ?ze"
    with zs ze have b: "startTime this + ?o \<le> w" "w \<le> endTime this + ?o" by simp_all
    then have "fromZonedTime w ?tz = w - ?o" by (rule sc(2))
    moreover from b have "toZonedTime (w - ?o) ?tz = w - ?o + ?o"
      by (intro sc(1)) simp_all
    ultimately show "fromZonedTime w ?tz = w - ?o \<and> toZonedTime (w - ?o) ?tz = w"
      by simp
  qed
  show ?thesis
  proof (cases "isAfter ?ze (endOfDay ?zs)")
    case False
    then show ?thesis by (simp add: splitByDay_def Let_def)
  next
    case True
    with assms(3) have first: "?zs mod MS_PER_DAY = 0
        \<or> endOfDay ?zs < ?ze \<and> MS_PER_MINUTE \<le> endOfDay ?zs - ?zs"
      and final: "?ze mod MS_PER_DAY = 0 \<or> MS_PER_MINUTE \<le> ?ze mod MS_PER_DAY"
      by (simp_all add: isAfter_def)
    from splitLoop_returns [OF valid conv order_refl first final, of 0] True
    show ?thesis by (simp add: splitByDay_def Let_def)
  qed
qed





section \<open>Ingestion\<close>

text \<open>The loop of \<open>updateUserStreak\<close> passes the dates that reach the threshold, in order.\<close>

lemma qualifyDates_filter:
  "qualifyDates st uid now userStreak uniqueDates =
     foldl (\<lambda>s d. updateWithQualifiedDate s d now) userStreak
       (filter (\<lambda>d. QUALIFIED_DAY_THRESHOLD_MINUTES \<le> getTotalMinutesForDate st uid d)
          uniqueDates)"
  by (induction uniqueDates arbitrary: userStreak) (simp_all add: Let_def)

text \<open>
  An ingestion that gets as far as the user's aggregate: \<open>execute\<close> stores the aggregate
  that the loop leaves.
\<close>

lemma execute_updates_streak:
  assumes "findById st sid = None"
    and "FocusSession_createNew sid uid start end tz now = Inr session"
    and "splitByDay session = Inr sessionSegments"
    and "saveAll st sessionSegments = (Inr (), st1)"
    and "findOrCreate st1 uid now = Inr (userStreak, st2)"
  shows "execute st sid uid start end tz now =
     (Inr (),
      saveStreak st2
        (qualifyDates st2 uid now userStreak
           (sort (remdups (map getQualifiedDate sessionSegments)))))"
  using assms by (simp add: execute_def updateUserStreak_def Let_def)

lemma saved_streak_found:
  "findByUserId (saveStreak st streak) (streakUserId streak) = Some streak"
  by (simp add: findByUserId_def saveStreak_def update_conv')

text \<open>The sessions of exactly 30 and of 29 minutes of the handler's tests, for a new user.\<close>

lemma execute_exact30:
  "map (\<lambda>(k, s). (currentStreak s, lastQualifiedDate s))
     (streaks (snd (execute emptyStore ''exact-30min'' testUserId jan15_10h
                      (jan15_10h + 30 * 60000) UTC 0))) = [(1, Some 20103)]"
  by code_simp

lemma execute_justUnder:
  "map (\<lambda>(k, s). (currentStreak s, lastQualifiedDate s))
     (streaks (snd (execute emptyStore ''just-under'' testUserId jan15_10h
                      (jan15_10h + 29 * 60000) UTC 0))) = [(0, None)]"
  by code_simp

text \<open>
  C5. The threshold is 30 minutes. An ingestion that saves its segments stores, for the
  user, new or known, the aggregate that the streak transition gives when it is fed, in
  ascending order, the dates of the segments whose total of minutes for the user, the
  new segments included, is the threshold at least. A date of a segment whose total is
  exactly the threshold is among the dates fed; a date whose total is one minute less is
  not.
\<close>

theorem threshold_boundary:
  fixes st :: Store and sessionSegments :: "FocusSession list"
  defines "touched \<equiv> sort (remdups (map getQualifiedDate sessionSegments))"
  assumes "findById st sid = None"
    and "FocusSession_createNew sid uid start end tz now = Inr session"
    and "splitByDay session = Inr sessionSegments"
    and "saveAll st sessionSegments = (Inr (), st1)"
    and "findOrCreate st1 uid now = Inr (userStreak, st2)"
  shows "QUALIFIED_DAY_THRESHOLD_MINUTES = 30
    \<and> execute st sid uid start end tz now =
        (Inr (),
         saveStreak st2
           (foldl (\<lambda>s d. updateWithQualifiedDate s d now) userStreak
              (filter
                 (\<lambda>d. QUALIFIED_DAY_THRESHOLD_MINUTES \<le> getTotalMinutesForDate st2 uid d)
                 touched)))
    \<and> (\<forall>segment \<in> set sessionSegments.
          getTotalMinutesForDate st2 uid (getQualifiedDate segment)
            = QUALIFIED_DAY_THRESHOLD_MINUTES
          \<longrightarrow> getQualifiedDate segment
              \<in> set (filter
                   (\<lambda>d. QUALIFIED_DAY_THRESHOLD_MINUTES \<le> getTotalMinutesForDate st2 uid d)
                   touched))
    \<and> (\<forall>d. getTotalMinutesForDate st2 uid d = QUALIFIED_DAY_THRESHOLD_MINUTES - 1
          \<longrightarrow> d \<notin> set (filter
                   (\<lambda>d. QUALIFIED_DAY_THRESHOLD_MINUTES \<le> getTotalMinutesForDate st2 uid d)
                   touched))"
proof -
  have t: "QUALIFIED_DAY_THRESHOLD_MINUTES = 30"
    by (simp add: QUALIFIED_DAY_THRESHOLD_MINUTES_def)
  have e: "execute st sid uid start end tz now =
        (Inr (),
         saveStreak st2
           (foldl (\<lambda>s d. updateWithQualifiedDate s d now) userStreak
              (filter
                 (\<lambda>d. QUALIFIED_DAY_THRESHOLD_MINUTES \<le> getTotalMinutesForDate st2 uid d)
                 touched)))"
    using execute_updates_streak [OF assms(2-6)]
    by (simp only: qualifyDates_filter touched_def)
  have s: "set touched = getQualifiedDate ` set sessionSegments"
    by (simp add: touched_def)
  show ?thesis
    using t e by (simp add: s)
qed

text \<open>
  A known user with 15 minutes on 2025-01-15 and a streak that ended the day before. A
  second session of 15 minutes makes the total 30: the streak becomes 2. A second
  session of 14 minutes makes it 29: the aggregate stays as it was.
\<close>

theorem threshold_boundary_witness:
  "findById returningStore ''second-15'' = None
   \<and> getTotalMinutesForDate
        (returningStore\<lparr>sessions := sessions returningStore @ [(''second-15'', second15)]\<rparr>)
        testUserId 20103 = QUALIFIED_DAY_THRESHOLD_MINUTES
   \<and> findByUserId
        (snd (execute returningStore ''second-15'' testUserId jan15_10h
                (jan15_10h + 15 * 60000) UTC 7)) testUserId
       = Some (updateWithQualifiedDate yesterdayStreak 20103 7)
   \<and> currentStreak (updateWithQualifiedDate yesterdayStreak 20103 7) = 2
   \<and> findById returningStore ''second-14'' = None
   \<and> getTotalMinutesForDate
        (returningStore\<lparr>sessions := sessions returningStore @ [(''second-14'', second14)]\<rparr>)
        testUserId 20103 = QUALIFIED_DAY_THRESHOLD_MINUTES - 1
   \<and> findByUserId
        (snd (execute returningStore ''second-14'' testUserId jan15_10h
                (jan15_10h + 14 * 60000) UTC 7)) testUserId
       = Some yesterdayStreak"
proof -
  let ?st15 = "returningStore\<lparr>sessions := sessions returningStore @ [(''second-15'', second15)]\<rparr>"
  let ?st14 = "returningStore\<lparr>sessions := sessions returningStore @ [(''second-14'', second14)]\<rparr>"
  have a1: "findById returningStore ''second-15'' = None"
    by code_simp
  have a2: "FocusSession_createNew ''second-15'' testUserId jan15_10h (jan15_10h + 15 * 60000) UTC 7
      = Inr second15"
    by code_simp
  have a3: "splitByDay second15 = Inr [second15]"
    by code_simp
  have a4: "saveAll returningStore [second15] = (Inr (), ?st15)"
    by code_simp
  have a5: "findOrCreate ?st15 testUserId 7 = Inr (yesterdayStreak, ?st15)"
    by code_simp
  have a6: "getTotalMinutesForDate ?st15 testUserId 20103 = QUALIFIED_DAY_THRESHOLD_MINUTES"
    by code_simp
  have b1: "findById returningStore ''second-14'' = None"
    by code_simp
  have b2: "FocusSession_createNew ''second-14'' testUserId jan15_10h (jan15_10h + 14 * 60000) UTC 7
      = Inr second14"
    by code_simp
  have b3: "splitByDay second14 = Inr [second14]"
    by code_simp
  have b4: "saveAll returningStore [second14] = (Inr (), ?st14)"
    by code_simp
  have b5: "findOrCreate ?st14 testUserId 7 = Inr (yesterdayStreak, ?st14)"
    by code_simp
  have b6: "getTotalMinutesForDate ?st14 testUserId 20103 = QUALIFIED_DAY_THRESHOLD_MINUTES - 1"
    by code_simp
  have q15: "getQualifiedDate second15 = 20103"
    by code_simp
  have q14: "getQualifiedDate second14 = 20103"
    by code_simp
  have u: "streakUserId yesterdayStreak = testUserId"
    by (simp add: yesterdayStreak_def)
  note t15 = threshold_boundary [OF a1 a2 a3 a4 a5]
  note t14 = threshold_boundary [OF b1 b2 b3 b4 b5]
  from t15 have "execute returningStore ''second-15'' testUserId jan15_10h
       (jan15_10h + 15 * 60000) UTC 7
      = (Inr (), saveStreak ?st15 (updateWithQualifiedDate yesterdayStreak 20103 7))"
    by (simp add: q15 a6)
  then have c15: "findByUserId
        (snd (execute returningStore ''second-15'' testUserId jan15_10h
                (jan15_10h + 15 * 60000) UTC 7)) testUserId
       = Some (updateWithQualifiedDate yesterdayStreak 20103 7)"
    using saved_streak_found [of ?st15 "updateWithQualifiedDate yesterdayStreak 20103 7"]
    by (simp add: updateWithQualifiedDate_branches yesterdayStreak_def)
  from t14 have "execute returningStore ''second-14'' testUserId jan15_10h
       (jan15_10h + 14 * 60000) UTC 7
      = (Inr (), saveStreak ?st14 yesterdayStreak)"
    by (simp add: q14 b6)
  then have c14: "findByUserId
        (snd (execute returningStore ''second-14'' testUserId jan15_10h
                (jan15_10h + 14 * 60000) UTC 7)) testUserId
       = Some yesterdayStreak"
    using saved_streak_found [of ?st14 yesterdayStreak] by (simp add: u)
  have d: "currentStreak (updateWithQualifiedDate yesterdayStreak 20103 7) = 2"
    by (simp add: updateWithQualifiedDate_branches yesterdayStreak_def)
  from a1 a6 c15 d b1 b6 c14 show ?thesis
    by (intro conjI)
qed

text \<open>
  What \<open>execute\<close> does with a session it finds, and with an error of \<open>save\<close>: it
  returns at once for the first, and has no handler for the second.
\<close>

lemma execute_existing_session_noop:
  "findById st sid = Some existingSession \<Longrightarrow>
   execute st sid uid start end tz now = (Inr (), st)"
  by (simp add: execute_def)

lemma execute_surfaces_save_error:
  assumes "findById st sid = None"
    and "FocusSession_createNew sid uid start end tz now = Inr session"
    and "splitByDay session = Inr sessionSegments"
    and "saveAll st sessionSegments = (Inl e, st1)"
  shows "execute st sid uid start end tz now = (Inl e, st1)"
  using assms by (simp add: execute_def)

lemma createNew_sessionId:
  "FocusSession_createNew sid uid start end tz now = Inr session \<Longrightarrow> sessionId session = sid"
  by (auto simp: FocusSession_createNew_def FocusSession_create_def split: if_splits)

lemma updateUserStreak_sessions:
  "updateUserStreak st uid segs now = (r, st') \<Longrightarrow> sessions st' = sessions st"
  by (auto simp: updateUserStreak_def findOrCreate_def saveStreak_def Let_def
      split: sum.splits option.splits prod.splits)

text \<open>
  A session that is not split is stored under its own identifier, so a second call finds
  it and changes nothing.
\<close>

lemma single_day_retry_noop:
  assumes "findById st sid = None"
    and "FocusSession_createNew sid uid start end tz now = Inr session"
    and "splitByDay session = Inr [session]"
    and "execute st sid uid start end tz now = (Inr (), st')"
  shows "execute st' sid uid start end tz now = (Inr (), st')"
proof -
  from assms(1) have n: "map_of (sessions st) sid = None"
    by (simp add: findById_def)
  have sid: "sessionId session = sid"
    using assms(2) by (rule createNew_sessionId)
  from n sid have sv: "save st session = Inr (st\<lparr>sessions := sessions st @ [(sid, session)]\<rparr>)"
    by (simp add: save_def)
  from assms sv have
    "updateUserStreak (st\<lparr>sessions := sessions st @ [(sid, session)]\<rparr>) uid [session] now
       = (Inr (), st')"
    by (simp add: execute_def)
  then have "sessions st' = sessions st @ [(sid, session)]"
    by (auto dest: updateUserStreak_sessions)
  with n have "findById st' sid = Some session"
    by (simp add: findById_def map_add_def)
  then show ?thesis
    by (rule execute_existing_session_noop)
qed

text \<open>
  C1. A second call with the same session should succeed and change nothing, also for a
  session that is split. The session from 23:00 to 01:00 UTC is stored as its two
  segments, under the identifiers with the suffixes \<open>-day0\<close> and \<open>-day1\<close>: the second
  call does not find the session's own identifier, splits again, and fails on saving the
  first segment.
\<close>

theorem midnight_session_retry_fails:
  "FocusSession_createNew ''midnight-session'' testUserId jan15_23h jan16_01h UTC 0
     = Inr midnightSession
   \<and> splitByDay midnightSession = Inr [midnightDay0, midnightDay1]
   \<and> fst (execute emptyStore ''midnight-session'' testUserId jan15_23h jan16_01h UTC 0) = Inr ()
   \<and> sessions afterMidnightSession
       = [(''midnight-session-day0'', midnightDay0), (''midnight-session-day1'', midnightDay1)]
   \<and> findById afterMidnightSession ''midnight-session'' = None
   \<and> execute afterMidnightSession ''midnight-session'' testUserId jan15_23h jan16_01h UTC 0
       = (Inl (FocusSessionAlreadyExistsError ''midnight-session-day0''), afterMidnightSession)"
  by code_simp

text \<open>
  C6. An error of \<open>save\<close> for an identifier that exists should end in a success without
  effect. On the store left by the ingestion of the session in Tokyo, \<open>save\<close> raises
  the error for the first segment, and \<open>execute\<close> for that session returns the error to
  its caller.
\<close>

theorem duplicate_segment_error_surfaces:
  "execute emptyStore ''tokyo-night'' testUserId (startTime tokyoNight) (endTime tokyoNight)
     Asia_Tokyo 0 = (Inr (), tokyoStore)
   \<and> save tokyoStore tokyoDay0 = Inl (FocusSessionAlreadyExistsError ''tokyo-night-day0'')
   \<and> execute tokyoStore ''tokyo-night'' testUserId (startTime tokyoNight) (endTime tokyoNight)
        Asia_Tokyo 0
       = (Inl (FocusSessionAlreadyExistsError ''tokyo-night-day0''), tokyoStore)"
  by code_simp

end
